theory Spec2Isabelle
  imports Complex_Main
begin

section \<open>Data model (include/json\_to\_sexpr.h)\<close>

text \<open>
  The converter reads a JSON text, builds a tree and prints it as an S-expression.
  Modelling conventions:
  \<^item> C strings are \<open>string\<close>s (lists of bytes); the terminating NUL is implicit and a read
    at or after the end of the list yields NUL (\<open>input_at\<close>).
  \<^item> \<open>size_t\<close> counters are \<open>nat\<close>, the \<open>int\<close> line and column counters are \<open>int\<close>
    (they cannot overflow on inputs shorter than \<open>2^31\<close> bytes).
  \<^item> The linked lists of members and elements are HOL lists in source order.
  \<^item> \<open>malloc\<close> is assumed to succeed; the number of live heap blocks is tracked in the
    field \<open>allocated\<close> so that the release of partial trees can be stated.
  \<^item> Messages on \<open>stderr\<close> are not part of the model, except the trailing-content
    warning of \<open>main\<close>.
\<close>

definition MAX_TOKEN_SIZE :: nat where
  "MAX_TOKEN_SIZE = 1024"

datatype token_type_t =
    TOKEN_LBRACE | TOKEN_RBRACE | TOKEN_LBRACKET | TOKEN_RBRACKET
  | TOKEN_COLON | TOKEN_COMMA | TOKEN_STRING | TOKEN_NUMBER
  | TOKEN_TRUE | TOKEN_FALSE | TOKEN_NULL | TOKEN_EOF | TOKEN_ERROR

text \<open>
  A C \<open>double\<close> (IEEE 754 binary64): a sign bit and an exact non-negative magnitude, an
  infinity, or a NaN. Only magnitudes that binary64 can represent are ever constructed.
\<close>

datatype double = Finite bool rat | Infinity bool | NaN

record token_t =
  type :: token_type_t
  token_value :: string
  number_value :: double

datatype json_value =
    JSON_OBJECT "(string \<times> json_value) list"
  | JSON_ARRAY "json_value list"
  | JSON_STRING string
  | JSON_NUMBER double
  | JSON_BOOLEAN bool
  | JSON_NULL

record parser_t =
  input :: string
  pos :: nat
  length_p :: nat
  current_token :: token_t
  line :: int
  column :: int
  allocated :: int

abbreviation DQUOTE :: char where "DQUOTE \<equiv> CHR 0x22"
abbreviation BACKSLASH :: char where "BACKSLASH \<equiv> CHR 0x5C"
abbreviation NUL :: char where "NUL \<equiv> CHR 0x00"

section \<open>The C library functions the converter calls\<close>

definition strlen :: "string \<Rightarrow> nat" where
  "strlen s = length (takeWhile (\<lambda>c. c \<noteq> NUL) s)"

definition isdigit :: "char \<Rightarrow> bool" where
  "isdigit c = (of_char c \<ge> (48::nat) \<and> of_char c \<le> (57::nat))"

definition digit_value :: "char \<Rightarrow> nat" where
  "digit_value c = of_char c - 48"

fun digits_value :: "nat \<Rightarrow> string \<Rightarrow> nat" where
  "digits_value acc [] = acc"
| "digits_value acc (c # cs) = digits_value (10 * acc + digit_value c) cs"

fun bit_length :: "nat \<Rightarrow> nat" where
  "bit_length n = (if n = 0 then 0 else Suc (bit_length (n div 2)))"

declare bit_length.simps [simp del]

definition pow2 :: "int \<Rightarrow> rat" where
  "pow2 e = (if 0 \<le> e then 2 ^ nat e else 1 / 2 ^ nat (- e))"

definition pow10 :: "int \<Rightarrow> rat" where
  "pow10 e = (if 0 \<le> e then 10 ^ nat e else 1 / 10 ^ nat (- e))"

text \<open>\<open>floor_log2 q\<close> is the \<open>e\<close> with \<open>2^e \<le> q < 2^(e+1)\<close>, for \<open>q > 0\<close>.\<close>

definition floor_log2 :: "rat \<Rightarrow> int" where
  "floor_log2 q =
     (let (a, b) = quotient_of q;
          e0 = int (bit_length (nat a)) - int (bit_length (nat b))
      in if pow2 e0 \<le> q then e0 else e0 - 1)"

definition round_half_even :: "rat \<Rightarrow> int" where
  "round_half_even x =
     (let f = \<lfloor>x\<rfloor>; r = x - of_int f
      in if r < 1 / 2 then f
         else if 1 / 2 < r then f + 1
         else if even f then f else f + 1)"

text \<open>
  Rounding of a non-negative rational to the nearest binary64 value, ties to even:
  53 significant bits, gradual underflow below \<open>2^-1022\<close>, overflow to infinity.
\<close>

definition round_to_double :: "bool \<Rightarrow> rat \<Rightarrow> double" where
  "round_to_double neg q =
     (if q \<le> 0 then Finite neg 0
      else let e = max (floor_log2 q) (- 1022) - 52;
               r = of_int (round_half_even (q / pow2 e)) * pow2 e
           in if pow2 1024 \<le> r then Infinity neg else Finite neg r)"

text \<open>
  \<open>atof\<close> on decimal literals (the tokenizer only passes texts made of digits and the
  characters \<open>- + . e E\<close>): optional sign, digits with an optional point, and an exponent
  that counts only when at least one digit follows it. Without any mantissa digit no
  conversion is performed and the result is \<open>0.0\<close>.
\<close>

definition atof :: "string \<Rightarrow> double" where
  "atof s =
     (let neg = (s \<noteq> [] \<and> hd s = CHR ''-'');
          s1 = (if s \<noteq> [] \<and> (hd s = CHR ''-'' \<or> hd s = CHR ''+'') then tl s else s);
          ip = takeWhile isdigit s1;
          s2 = dropWhile isdigit s1;
          has_point = (s2 \<noteq> [] \<and> hd s2 = CHR ''.'');
          fp = (if has_point then takeWhile isdigit (tl s2) else []);
          s3 = (if has_point then dropWhile isdigit (tl s2) else s2);
          has_exp = (s3 \<noteq> [] \<and> (hd s3 = CHR ''e'' \<or> hd s3 = CHR ''E''));
          s4 = (if has_exp then tl s3 else []);
          eneg = (s4 \<noteq> [] \<and> hd s4 = CHR ''-'');
          s5 = (if s4 \<noteq> [] \<and> (hd s4 = CHR ''-'' \<or> hd s4 = CHR ''+'') then tl s4 else s4);
          ed = takeWhile isdigit s5;
          ex = (if eneg then - int (digits_value 0 ed) else int (digits_value 0 ed))
      in if ip = [] \<and> fp = [] then Finite False 0
         else round_to_double neg
                (of_nat (digits_value 0 (ip @ fp)) * pow10 (ex - int (length fp))))"

text \<open>
  The conversion \<open>(long long)d\<close> truncates toward zero; it is undefined (\<open>None\<close>) when the
  truncated value is outside the range of \<open>long long\<close>, and for infinities and NaN.
\<close>

definition double_to_ll :: "double \<Rightarrow> int option" where
  "double_to_ll d =
     (case d of
        Finite s m \<Rightarrow>
          (let t = (if s then - \<lfloor>m\<rfloor> else \<lfloor>m\<rfloor>)
           in if - (2 ^ 63) \<le> t \<and> t < 2 ^ 63 then Some t else None)
      | Infinity s \<Rightarrow> None
      | NaN \<Rightarrow> None)"

definition ll_to_double :: "int \<Rightarrow> double" where
  "ll_to_double i = round_to_double (i < 0) (of_int \<bar>i\<bar>)"

text \<open>The comparison \<open>==\<close> on doubles: the two zeros are equal, NaN equals nothing.\<close>

definition double_eq :: "double \<Rightarrow> double \<Rightarrow> bool" where
  "double_eq a b =
     (case (a, b) of
        (Finite s m, Finite s' m') \<Rightarrow> m = m' \<and> (s = s' \<or> m = 0)
      | (Infinity s, Infinity s') \<Rightarrow> s = s'
      | _ \<Rightarrow> False)"

text \<open>\<open>printf("%lld", i)\<close>.\<close>

fun decimal_digits :: "nat \<Rightarrow> string" where
  "decimal_digits n =
     (if n < 10 then [char_of (48 + n)]
      else decimal_digits (n div 10) @ [char_of (48 + n mod 10)])"

declare decimal_digits.simps [simp del]

definition printf_lld :: "int \<Rightarrow> string" where
  "printf_lld i = (if i < 0 then CHR ''-'' # decimal_digits (nat (- i)) else decimal_digits (nat i))"

text \<open>\<open>floor_log10 q\<close> is the \<open>x\<close> with \<open>10^x \<le> q < 10^(x+1)\<close>, for \<open>q > 0\<close>.\<close>

definition floor_log10 :: "rat \<Rightarrow> int" where
  "floor_log10 q =
     (let x0 = (floor_log2 q * 30103) div 100000
      in if q < pow10 x0 then x0 - 1
         else if pow10 (x0 + 2) \<le> q then x0 + 2
         else if pow10 (x0 + 1) \<le> q then x0 + 1
         else x0)"

definition strip_trailing_zeros :: "string \<Rightarrow> string" where
  "strip_trailing_zeros ds = rev (dropWhile (\<lambda>c. c = CHR ''0'') (rev ds))"

text \<open>
  \<open>printf("%.15g", d)\<close>: 15 significant digits, rounded to nearest (ties to even) from
  the exact value; exponent style when the decimal exponent is below \<open>-4\<close> or at least
  \<open>15\<close>; trailing zeros and a trailing point removed.
\<close>

definition printf_g15 :: "double \<Rightarrow> string" where
  "printf_g15 d =
     (case d of
        NaN \<Rightarrow> ''nan''
      | Infinity s \<Rightarrow> (if s then ''-inf'' else ''inf'')
      | Finite s m \<Rightarrow>
          (if s then ''-'' else []) @
          (if m \<le> 0 then ''0''
           else let x0 = floor_log10 m;
                    n0 = nat (round_half_even (m / pow10 (x0 - 14)));
                    x = (if 10 ^ 15 \<le> n0 then x0 + 1 else x0);
                    n = (if 10 ^ 15 \<le> n0 then n0 div 10 else n0);
                    ds = decimal_digits n
                in if x < - 4 \<or> 15 \<le> x then
                     (let frac = strip_trailing_zeros (tl ds);
                          ex = decimal_digits (nat \<bar>x\<bar>)
                      in [hd ds] @ (if frac = [] then [] else CHR ''.'' # frac) @
                         ''e'' @ (if x < 0 then ''-'' else ''+'') @
                         (if length ex < 2 then CHR ''0'' # ex else ex))
                   else if x < 0 then
                     ''0.'' @ replicate (nat (- x - 1)) (CHR ''0'') @ strip_trailing_zeros ds
                   else
                     (let frac = strip_trailing_zeros (drop (nat x + 1) ds)
                      in take (nat x + 1) ds @ (if frac = [] then [] else CHR ''.'' # frac))))"

section \<open>Tokenizer (src/parser.c)\<close>

definition input_at :: "parser_t \<Rightarrow> nat \<Rightarrow> char" where
  "input_at p i = (if i < length (input p) then input p ! i else NUL)"

definition heap_malloc :: "parser_t \<Rightarrow> parser_t" where
  "heap_malloc p = p\<lparr>allocated := allocated p + 1\<rparr>"

definition heap_free :: "parser_t \<Rightarrow> parser_t" where
  "heap_free p = p\<lparr>allocated := allocated p - 1\<rparr>"

function tokenizer_skip_whitespace :: "parser_t \<Rightarrow> parser_t" where
  "tokenizer_skip_whitespace p =
     (if pos p < length_p p then
        (let current_char = input_at p (pos p) in
         if current_char = CHR '' '' \<or> current_char = CHR 0x09 \<or> current_char = CHR 0x0D then
           tokenizer_skip_whitespace (p\<lparr>pos := pos p + 1, column := column p + 1\<rparr>)
         else if current_char = CHR 0x0A then
           tokenizer_skip_whitespace (p\<lparr>pos := pos p + 1, line := line p + 1, column := 1\<rparr>)
         else p)
      else p)"
  by pat_completeness auto
termination
  by (relation "measure (\<lambda>p. length_p p - pos p)") auto

declare tokenizer_skip_whitespace.simps [simp del]

text \<open>
  The loop of \<open>tokenizer_parse_string_literal\<close>. The token buffer is the list \<open>v\<close> and
  \<open>value_pos\<close> is its length; the result says whether the closing quote was found.
\<close>

definition string_escape :: "char \<Rightarrow> string \<Rightarrow> string" where
  "string_escape escaped v =
     (if escaped = DQUOTE then v @ [DQUOTE]
      else if escaped = BACKSLASH then v @ [BACKSLASH]
      else if escaped = CHR ''/'' then v @ [CHR ''/'']
      else if escaped = CHR ''b'' then v @ [CHR 0x08]
      else if escaped = CHR ''f'' then v @ [CHR 0x0C]
      else if escaped = CHR ''n'' then v @ [CHR 0x0A]
      else if escaped = CHR ''r'' then v @ [CHR 0x0D]
      else if escaped = CHR ''t'' then v @ [CHR 0x09]
      else (let v1 = v @ [BACKSLASH]
            in if length v1 < MAX_TOKEN_SIZE - 1 then v1 @ [escaped] else v1))"

function string_literal_loop :: "parser_t \<Rightarrow> string \<Rightarrow> bool \<times> parser_t \<times> string" where
  "string_literal_loop p v =
     (if pos p < length_p p \<and> length v < MAX_TOKEN_SIZE - 1 then
        (if input_at p (pos p) = DQUOTE then
           (True, p\<lparr>pos := pos p + 1, column := column p + 1\<rparr>, v)
         else if input_at p (pos p) = BACKSLASH \<and> pos p + 1 < length_p p then
           string_literal_loop (p\<lparr>pos := pos p + 2, column := column p + 2\<rparr>)
             (string_escape (input_at p (pos p + 1)) v)
         else
           string_literal_loop (p\<lparr>pos := pos p + 1, column := column p + 1\<rparr>)
             (v @ [input_at p (pos p)]))
      else (False, p, v))"
  by pat_completeness auto
termination
  by (relation "measure (\<lambda>(p, v). length_p p - pos p)") auto

declare string_literal_loop.simps [simp del]

definition tokenizer_parse_string_literal :: "parser_t \<Rightarrow> token_t \<times> parser_t" where
  "tokenizer_parse_string_literal p =
     (case string_literal_loop (p\<lparr>pos := pos p + 1, column := column p + 1\<rparr>) [] of
        (found_closing_quote, p', v) \<Rightarrow>
          if \<not> found_closing_quote
          then (\<lparr>type = TOKEN_ERROR, token_value = v, number_value = Finite False 0\<rparr>, p')
          else (\<lparr>type = TOKEN_STRING, token_value = v, number_value = Finite False 0\<rparr>, p'))"

text \<open>The digit loop that occurs three times in \<open>tokenizer_parse_numeric_literal\<close>.\<close>

function numeric_digits_loop :: "parser_t \<Rightarrow> string \<Rightarrow> parser_t \<times> string" where
  "numeric_digits_loop p v =
     (if pos p < length_p p \<and> isdigit (input_at p (pos p)) then
        numeric_digits_loop (p\<lparr>pos := pos p + 1, column := column p + 1\<rparr>)
          (if length v < MAX_TOKEN_SIZE - 1 then v @ [input_at p (pos p)] else v)
      else (p, v))"
  by pat_completeness auto
termination
  by (relation "measure (\<lambda>(p, v). length_p p - pos p)") auto

declare numeric_digits_loop.simps [simp del]

definition numeric_store :: "parser_t \<Rightarrow> string \<Rightarrow> parser_t \<times> string" where
  \<comment> \<open>copy the current character into the buffer if there is room, and step over it\<close>
  "numeric_store p v =
     (p\<lparr>pos := pos p + 1, column := column p + 1\<rparr>,
      if length v < MAX_TOKEN_SIZE - 1 then v @ [input_at p (pos p)] else v)"

definition numeric_fraction :: "parser_t \<Rightarrow> string \<Rightarrow> parser_t \<times> string" where
  "numeric_fraction p v =
     (if pos p < length_p p \<and> input_at p (pos p) = CHR ''.'' then
        (case numeric_store p v of (p1, v1) \<Rightarrow> numeric_digits_loop p1 v1)
      else (p, v))"

definition numeric_exponent :: "parser_t \<Rightarrow> string \<Rightarrow> parser_t \<times> string" where
  "numeric_exponent p v =
     (if pos p < length_p p \<and> (input_at p (pos p) = CHR ''e'' \<or> input_at p (pos p) = CHR ''E'') then
        (case numeric_store p v of (p1, v1) \<Rightarrow>
           (case (if pos p1 < length_p p1 \<and>
                     (input_at p1 (pos p1) = CHR ''+'' \<or> input_at p1 (pos p1) = CHR ''-'')
                  then numeric_store p1 v1 else (p1, v1)) of
              (p2, v2) \<Rightarrow> numeric_digits_loop p2 v2))
      else (p, v))"

definition numeric_finish :: "parser_t \<Rightarrow> string \<Rightarrow> token_t \<times> parser_t" where
  "numeric_finish p v =
     (case numeric_fraction p v of (p1, v1) \<Rightarrow>
        (case numeric_exponent p1 v1 of (p2, v2) \<Rightarrow>
           (\<lparr>type = TOKEN_NUMBER, token_value = v2, number_value = atof v2\<rparr>, p2)))"

definition tokenizer_parse_numeric_literal :: "parser_t \<Rightarrow> token_t \<times> parser_t" where
  "tokenizer_parse_numeric_literal p =
     (case (if input_at p (pos p) = CHR ''-''
            then (p\<lparr>pos := pos p + 1, column := column p + 1\<rparr>, ''-'') else (p, [])) of
        (p1, v1) \<Rightarrow>
          if pos p1 < length_p p1 \<and> input_at p1 (pos p1) = CHR ''0'' then
            (let p2 = p1\<lparr>pos := pos p1 + 1, column := column p1 + 1\<rparr>; v2 = v1 @ ''0''
             in if pos p2 < length_p p2 \<and> isdigit (input_at p2 (pos p2))
                then (\<lparr>type = TOKEN_ERROR, token_value = v2, number_value = Finite False 0\<rparr>, p2)
                else numeric_finish p2 v2)
          else (case numeric_digits_loop p1 v1 of (p2, v2) \<Rightarrow> numeric_finish p2 v2))"

definition strncmp_eq :: "parser_t \<Rightarrow> string \<Rightarrow> bool" where
  \<comment> \<open>\<open>strncmp(input + pos, kw, strlen(kw)) == 0\<close> for a keyword without NUL\<close>
  "strncmp_eq p kw = (map (input_at p) [pos p ..< pos p + length kw] = kw)"

definition tokenizer_parse_keyword_literal :: "parser_t \<Rightarrow> token_t \<times> parser_t" where
  "tokenizer_parse_keyword_literal p =
     (if strncmp_eq p ''true'' then
        (\<lparr>type = TOKEN_TRUE, token_value = ''true'', number_value = Finite False 0\<rparr>,
         p\<lparr>pos := pos p + 4, column := column p + 4\<rparr>)
      else if strncmp_eq p ''false'' then
        (\<lparr>type = TOKEN_FALSE, token_value = ''false'', number_value = Finite False 0\<rparr>,
         p\<lparr>pos := pos p + 5, column := column p + 5\<rparr>)
      else if strncmp_eq p ''null'' then
        (\<lparr>type = TOKEN_NULL, token_value = ''null'', number_value = Finite False 0\<rparr>,
         p\<lparr>pos := pos p + 4, column := column p + 4\<rparr>)
      else (\<lparr>type = TOKEN_ERROR, token_value = [], number_value = Finite False 0\<rparr>, p))"

definition single_char_token :: "token_type_t \<Rightarrow> parser_t \<Rightarrow> token_t \<times> parser_t" where
  "single_char_token ty p =
     (\<lparr>type = ty, token_value = [input_at p (pos p)], number_value = Finite False 0\<rparr>,
      p\<lparr>pos := pos p + 1, column := column p + 1\<rparr>)"

definition tokenizer_get_next_token :: "parser_t \<Rightarrow> token_t \<times> parser_t" where
  "tokenizer_get_next_token p0 =
     (let p = tokenizer_skip_whitespace p0 in
      if pos p \<ge> length_p p then
        (\<lparr>type = TOKEN_EOF, token_value = [], number_value = Finite False 0\<rparr>, p)
      else
        (let c = input_at p (pos p) in
         if c = CHR ''{'' then single_char_token TOKEN_LBRACE p
         else if c = CHR ''}'' then single_char_token TOKEN_RBRACE p
         else if c = CHR ''['' then single_char_token TOKEN_LBRACKET p
         else if c = CHR '']'' then single_char_token TOKEN_RBRACKET p
         else if c = CHR '':'' then single_char_token TOKEN_COLON p
         else if c = CHR '','' then single_char_token TOKEN_COMMA p
         else if c = DQUOTE then tokenizer_parse_string_literal p
         else if c = CHR ''-'' \<or> isdigit c then tokenizer_parse_numeric_literal p
         else if c = CHR ''t'' \<or> c = CHR ''f'' \<or> c = CHR ''n'' then tokenizer_parse_keyword_literal p
         else (\<lparr>type = TOKEN_ERROR, token_value = [], number_value = Finite False 0\<rparr>, p)))"

text \<open>The statement \<open>parser->current_token = tokenizer_get_next_token(parser)\<close>.\<close>

definition advance_token :: "parser_t \<Rightarrow> parser_t" where
  "advance_token p = (case tokenizer_get_next_token p of (t, p') \<Rightarrow> p'\<lparr>current_token := t\<rparr>)"

definition parser_initialize :: "string \<Rightarrow> parser_t" where
  "parser_initialize text =
     advance_token
       \<lparr>input = text, pos = 0, length_p = strlen text,
        current_token = \<lparr>type = TOKEN_EOF, token_value = [], number_value = Finite False 0\<rparr>,
        line = 1, column = 1, allocated = 0\<rparr>"

section \<open>Releasing trees (src/memory.c)\<close>

text \<open>
  Each \<open>free\<close> releases one block: a value node, the text of a string, a member node
  with its key, an element node.
\<close>

fun json_memory_free_value :: "json_value \<Rightarrow> parser_t \<Rightarrow> parser_t"
  and json_memory_free_object_member :: "(string \<times> json_value) list \<Rightarrow> parser_t \<Rightarrow> parser_t"
  and json_memory_free_array_element :: "json_value list \<Rightarrow> parser_t \<Rightarrow> parser_t"
where
  "json_memory_free_value (JSON_OBJECT ms) h = heap_free (json_memory_free_object_member ms h)"
| "json_memory_free_value (JSON_ARRAY es) h = heap_free (json_memory_free_array_element es h)"
| "json_memory_free_value (JSON_STRING s) h = heap_free (heap_free h)"
| "json_memory_free_value (JSON_NUMBER d) h = heap_free h"
| "json_memory_free_value (JSON_BOOLEAN b) h = heap_free h"
| "json_memory_free_value JSON_NULL h = heap_free h"
| "json_memory_free_object_member [] h = h"
| "json_memory_free_object_member (m # ms) h =
     json_memory_free_object_member ms (heap_free (json_memory_free_value (snd m) (heap_free h)))"
| "json_memory_free_array_element [] h = h"
| "json_memory_free_array_element (e # es) h =
     json_memory_free_array_element es (heap_free (json_memory_free_value e h))"

section \<open>Parser (src/parser.c)\<close>

text \<open>
  The recursive-descent functions. The first argument bounds the number of nested calls
  and loop iterations; \<open>None\<close> means that the bound was too small. The result proper is
  the returned pointer (\<open>None\<close> for \<open>NULL\<close>) and the parser state after the call.
\<close>

fun json_parser_parse_value :: "nat \<Rightarrow> parser_t \<Rightarrow> (json_value option \<times> parser_t) option"
  and json_parser_parse_object :: "nat \<Rightarrow> parser_t \<Rightarrow> (json_value option \<times> parser_t) option"
  and parse_object_loop ::
    "nat \<Rightarrow> parser_t \<Rightarrow> (string \<times> json_value) list \<Rightarrow> (json_value option \<times> parser_t) option"
  and json_parser_parse_array :: "nat \<Rightarrow> parser_t \<Rightarrow> (json_value option \<times> parser_t) option"
  and parse_array_loop ::
    "nat \<Rightarrow> parser_t \<Rightarrow> json_value list \<Rightarrow> (json_value option \<times> parser_t) option"
where
  "json_parser_parse_value 0 p0 = None"
| "json_parser_parse_value (Suc n) p0 =
     (let p = heap_malloc p0 in
      case type (current_token p) of
        TOKEN_LBRACE \<Rightarrow> json_parser_parse_object n (heap_free p)
      | TOKEN_LBRACKET \<Rightarrow> json_parser_parse_array n (heap_free p)
      | TOKEN_STRING \<Rightarrow>
          Some (Some (JSON_STRING (token_value (current_token p))), advance_token (heap_malloc p))
      | TOKEN_NUMBER \<Rightarrow>
          Some (Some (JSON_NUMBER (number_value (current_token p))), advance_token p)
      | TOKEN_TRUE \<Rightarrow> Some (Some (JSON_BOOLEAN True), advance_token p)
      | TOKEN_FALSE \<Rightarrow> Some (Some (JSON_BOOLEAN False), advance_token p)
      | TOKEN_NULL \<Rightarrow> Some (Some JSON_NULL, advance_token p)
      | TOKEN_ERROR \<Rightarrow> Some (None, heap_free p)
      | _ \<Rightarrow> Some (None, heap_free p))"
| "json_parser_parse_object 0 p0 = None"
| "json_parser_parse_object (Suc n) p0 =
     (let p = advance_token (heap_malloc p0) in
      if type (current_token p) = TOKEN_RBRACE then Some (Some (JSON_OBJECT []), advance_token p)
      else parse_object_loop n p [])"
| "parse_object_loop 0 p ms = None"
| "parse_object_loop (Suc n) p ms =
     (if type (current_token p) \<noteq> TOKEN_EOF then
        if type (current_token p) \<noteq> TOKEN_STRING then
          Some (None, json_memory_free_value (JSON_OBJECT ms) p)
        else
          (let p1 = advance_token (heap_malloc (heap_malloc p)) in
           if type (current_token p1) \<noteq> TOKEN_COLON then
             Some (None, json_memory_free_value (JSON_OBJECT ms) (heap_free (heap_free p1)))
           else
             (case json_parser_parse_value n (advance_token p1) of
                None \<Rightarrow> None
              | Some (None, p2) \<Rightarrow>
                  Some (None, json_memory_free_value (JSON_OBJECT ms) (heap_free (heap_free p2)))
              | Some (Some v, p2) \<Rightarrow>
                  if type (current_token p2) = TOKEN_COMMA then
                    parse_object_loop n (advance_token p2) (ms @ [(token_value (current_token p), v)])
                  else if type (current_token p2) = TOKEN_RBRACE then
                    Some (Some (JSON_OBJECT (ms @ [(token_value (current_token p), v)])),
                          advance_token p2)
                  else
                    Some (None,
                          json_memory_free_value
                            (JSON_OBJECT (ms @ [(token_value (current_token p), v)])) p2)))
      else Some (Some (JSON_OBJECT ms), p))"
| "json_parser_parse_array 0 p0 = None"
| "json_parser_parse_array (Suc n) p0 =
     (let p = advance_token (heap_malloc p0) in
      if type (current_token p) = TOKEN_RBRACKET then Some (Some (JSON_ARRAY []), advance_token p)
      else parse_array_loop n p [])"
| "parse_array_loop 0 p es = None"
| "parse_array_loop (Suc n) p es =
     (if type (current_token p) \<noteq> TOKEN_EOF then
        (case json_parser_parse_value n (heap_malloc p) of
           None \<Rightarrow> None
         | Some (None, p2) \<Rightarrow> Some (None, json_memory_free_value (JSON_ARRAY es) (heap_free p2))
         | Some (Some v, p2) \<Rightarrow>
             if type (current_token p2) = TOKEN_COMMA then
               parse_array_loop n (advance_token p2) (es @ [v])
             else if type (current_token p2) = TOKEN_RBRACKET then
               Some (Some (JSON_ARRAY (es @ [v])), advance_token p2)
             else
               Some (None, json_memory_free_value (JSON_ARRAY (es @ [v])) p2))
      else Some (Some (JSON_ARRAY es), p))"

definition json_parser_parse_document :: "nat \<Rightarrow> parser_t \<Rightarrow> (json_value option \<times> parser_t) option" where
  "json_parser_parse_document n p = json_parser_parse_value n p"

text \<open>
  Parsing a text as \<open>main\<close> does: three calls per character and four more are always
  enough (\<open>parse_never_out_of_fuel\<close>).
\<close>

definition parse :: "string \<Rightarrow> (json_value option \<times> parser_t) option" where
  "parse text = json_parser_parse_document (3 * length text + 4) (parser_initialize text)"

section \<open>Serializer (sexpr\_output.c)\<close>

abbreviation NEWLINE :: char where "NEWLINE \<equiv> CHR 0x0A"

fun escape_chars :: "string \<Rightarrow> string" where
  "escape_chars [] = []"
| "escape_chars (c # cs) =
     (if c = DQUOTE then [BACKSLASH, DQUOTE]
      else if c = BACKSLASH then [BACKSLASH, BACKSLASH]
      else if c = NEWLINE then [BACKSLASH, CHR ''n'']
      else if c = CHR 0x0D then [BACKSLASH, CHR ''r'']
      else if c = CHR 0x09 then [BACKSLASH, CHR ''t'']
      else [c]) @ escape_chars cs"

definition string_utils_escape_for_lisp :: "string \<Rightarrow> string" where
  "string_utils_escape_for_lisp input_string = [DQUOTE] @ escape_chars input_string @ [DQUOTE]"

definition output_formatter_write_indentation :: "int \<Rightarrow> string" where
  "output_formatter_write_indentation indentation_level =
     replicate (nat (indentation_level * 2)) (CHR '' '')"

text \<open>
  The number case of \<open>sexpr_writer_write_value\<close>; \<open>None\<close> when the conversion to
  \<open>long long\<close> is undefined.
\<close>

definition write_number :: "double \<Rightarrow> string option" where
  "write_number d =
     (case double_to_ll d of
        None \<Rightarrow> None
      | Some integer_value \<Rightarrow>
          Some (if double_eq d (ll_to_double integer_value)
                then printf_lld integer_value
                else printf_g15 d))"

text \<open>
  The writer functions return the text they append to the output stream. The flags
  \<open>is_first_member\<close> and \<open>is_first_element\<close> of the two loops are arguments.
\<close>

fun sexpr_writer_write_value :: "json_value \<Rightarrow> int \<Rightarrow> string option"
  and sexpr_writer_write_object_members ::
    "(string \<times> json_value) list \<Rightarrow> bool \<Rightarrow> int \<Rightarrow> string option"
  and sexpr_writer_write_array_elements :: "json_value list \<Rightarrow> bool \<Rightarrow> int \<Rightarrow> string option"
where
  "sexpr_writer_write_value (JSON_OBJECT ms) lvl =
     (if ms \<noteq> [] then
        map_option
          (\<lambda>s. ''(json:object'' @ [NEWLINE] @ output_formatter_write_indentation (lvl + 1) @ s @ '')'')
          (sexpr_writer_write_object_members ms True (lvl + 1))
      else Some ''(json:object)'')"
| "sexpr_writer_write_value (JSON_ARRAY es) lvl =
     (if es \<noteq> [] then
        map_option
          (\<lambda>s. ''(json:array'' @ [NEWLINE] @ output_formatter_write_indentation (lvl + 1) @ s @ '')'')
          (sexpr_writer_write_array_elements es True (lvl + 1))
      else Some ''(json:array)'')"
| "sexpr_writer_write_value (JSON_STRING s) lvl = Some (string_utils_escape_for_lisp s)"
| "sexpr_writer_write_value (JSON_NUMBER d) lvl = write_number d"
| "sexpr_writer_write_value (JSON_BOOLEAN b) lvl = Some (if b then ''#t'' else ''#f'')"
| "sexpr_writer_write_value JSON_NULL lvl = Some ''nil''"
| "sexpr_writer_write_object_members [] is_first_member lvl = Some []"
| "sexpr_writer_write_object_members (m # ms) is_first_member lvl =
     (case sexpr_writer_write_value (snd m) (lvl + 1) of
        None \<Rightarrow> None
      | Some s \<Rightarrow>
          map_option
            (\<lambda>r. (if \<not> is_first_member then [NEWLINE] @ output_formatter_write_indentation lvl else [])
                  @ ''(json:'' @ fst m @ '' '' @ s @ '')'' @ r)
            (sexpr_writer_write_object_members ms False lvl))"
| "sexpr_writer_write_array_elements [] is_first_element lvl = Some []"
| "sexpr_writer_write_array_elements (e # es) is_first_element lvl =
     (case sexpr_writer_write_value e lvl of
        None \<Rightarrow> None
      | Some s \<Rightarrow>
          map_option
            (\<lambda>r. (if \<not> is_first_element then [NEWLINE] @ output_formatter_write_indentation lvl else [])
                  @ s @ r)
            (sexpr_writer_write_array_elements es False lvl))"

section \<open>The driver (src/main.c)\<close>

text \<open>
  What \<open>main\<close> does with the text it has read when the output is the standard output:
  the exit code, the text printed, and whether the warning about extra content after
  the document was given. The outer \<open>None\<close> stands for undefined behaviour in the writer.
\<close>

record run_result =
  exit_code :: int
  printed :: string
  extra_content_warning :: bool

definition output_header :: string where
  "output_header = '';; JSON to S-expression conversion'' @ [NEWLINE, NEWLINE]"

definition main_convert :: "string \<Rightarrow> run_result option" where
  "main_convert json_string =
     (case parse json_string of
        None \<Rightarrow> None
      | Some (None, parser) \<Rightarrow>
          Some \<lparr>exit_code = 1, printed = [], extra_content_warning = False\<rparr>
      | Some (Some json_value, parser) \<Rightarrow>
          map_option
            (\<lambda>s. \<lparr>exit_code = 0, printed = output_header @ s @ [NEWLINE],
                  extra_content_warning = (type (current_token parser) \<noteq> TOKEN_EOF)\<rparr>)
            (sexpr_writer_write_value json_value 0))"

section \<open>Concrete documents\<close>

lemma render_nested_example:
  \<open>map_option printed (main_convert ''{"a":1,"b":[true,false,null]}'') =
     Some (output_header @
       ''(json:object'' @ [NEWLINE] @
       ''  (json:a 1)'' @ [NEWLINE] @
       ''  (json:b (json:array'' @ [NEWLINE] @
       ''      #t'' @ [NEWLINE] @
       ''      #f'' @ [NEWLINE] @
       ''      nil)))'' @ [NEWLINE])\<close>
  by code_simp

text \<open>
  C3 (as stated in the specification): the document \<open>{"a":1,"b":[true,false,null]}\<close>
  renders with the elements of the nested array indented by 4 spaces. This is not what
  the writer prints: the value of a member is written one level deeper than the member,
  and the elements of an array one level deeper again.
\<close>

theorem C3_four_space_render_counterexample:
  \<open>map_option printed (main_convert ''{"a":1,"b":[true,false,null]}'') \<noteq>
     Some (output_header @
       ''(json:object'' @ [NEWLINE] @
       ''  (json:a 1)'' @ [NEWLINE] @
       ''  (json:b (json:array'' @ [NEWLINE] @
       ''    #t'' @ [NEWLINE] @
       ''    #f'' @ [NEWLINE] @
       ''    nil)))'' @ [NEWLINE])\<close>
  unfolding render_nested_example by simp

text \<open>
  C3 (amended): the document \<open>{"a":1,"b":[true,false,null]}\<close> is converted to the header,
  a blank line and the body in which the members are indented by 2 spaces and the
  elements \<open>#t\<close>, \<open>#f\<close>, \<open>nil\<close> of the nested array by 6 spaces, each on its own line, the
  closing parentheses glued to the last element.
\<close>

theorem C3_nested_render:
  \<open>main_convert ''{"a":1,"b":[true,false,null]}'' =
     Some \<lparr>exit_code = 0,
           printed = output_header @
             ''(json:object'' @ [NEWLINE] @
             ''  (json:a 1)'' @ [NEWLINE] @
             ''  (json:b (json:array'' @ [NEWLINE] @
             ''      #t'' @ [NEWLINE] @
             ''      #f'' @ [NEWLINE] @
             ''      nil)))'' @ [NEWLINE],
           extra_content_warning = False\<rparr>\<close>
  by code_simp

lemma leading_zero_01: "map_option fst (parse ''01'') = Some None"
  by code_simp

lemma leading_zero_minus_01: "map_option fst (parse ''-01'') = Some None"
  by code_simp

lemma leading_zero_01_token: "type (current_token (parser_initialize ''01'')) = TOKEN_ERROR"
  by code_simp

lemma leading_zero_minus_01_token: "type (current_token (parser_initialize ''-01'')) = TOKEN_ERROR"
  by code_simp

lemma number_0: "map_option fst (parse ''0'') = Some (Some (JSON_NUMBER (Finite False 0)))"
  by code_simp

lemma number_minus_0: "map_option fst (parse ''-0'') = Some (Some (JSON_NUMBER (Finite True 0)))"
  by code_simp

lemma number_0_5: "map_option fst (parse ''0.5'') = Some (Some (JSON_NUMBER (Finite False (1 / 2))))"
  by code_simp

text \<open>
  C7: the documents \<open>01\<close> and \<open>-01\<close> are rejected, the tokenizer reporting an error token
  for the number; the documents \<open>0\<close>, \<open>-0\<close> and \<open>0.5\<close> are accepted and yield the numbers
  zero, negative zero and one half.
\<close>

theorem C7_leading_zero_rule:
  "map_option fst (parse ''01'') = Some None \<and>
   map_option fst (parse ''-01'') = Some None \<and>
   type (current_token (parser_initialize ''01'')) = TOKEN_ERROR \<and>
   type (current_token (parser_initialize ''-01'')) = TOKEN_ERROR \<and>
   map_option fst (parse ''0'') = Some (Some (JSON_NUMBER (Finite False 0))) \<and>
   map_option fst (parse ''-0'') = Some (Some (JSON_NUMBER (Finite True 0))) \<and>
   map_option fst (parse ''0.5'') = Some (Some (JSON_NUMBER (Finite False (1 / 2))))"
  using leading_zero_01 leading_zero_minus_01 leading_zero_01_token leading_zero_minus_01_token
    number_0 number_minus_0 number_0_5
  by blast

lemma trailing_comma_array: \<open>map_option fst (parse ''[1,2,]'') = Some None\<close>
  by code_simp

lemma trailing_comma_object: \<open>map_option fst (parse ''{"a":1,}'') = Some None\<close>
  by code_simp

text \<open>
  C8: the documents \<open>[1,2,]\<close> and \<open>{"a":1,}\<close> are rejected: the parse returns no value.
\<close>

theorem C8_trailing_comma_rejected:
  \<open>map_option fst (parse ''[1,2,]'') = Some None \<and>
   map_option fst (parse ''{"a":1,}'') = Some None\<close>
  using trailing_comma_array trailing_comma_object by blast

end
